theory Spec2Isabelle
  imports Main
begin

section \<open>scripts/youtube\_utils.py: the Fetcher and the Tagger\<close>

text \<open>
  The module has two functions, \<^verbatim>\<open>download_youtube_audio\<close> (the Fetcher) and
  \<^verbatim>\<open>add_metadata_to_mp3\<close> (the Tagger). Both are sequential code around three
  collaborators: \<^verbatim>\<open>yt_dlp.YoutubeDL\<close>, \<^verbatim>\<open>mutagen\<close> and the file system. The model
  keeps every statement of the two functions; a collaborator is either a parameter
  (the extractor, the random identifier, the encoder of the output stream) or a small
  model of the part of its behaviour that the two functions rely on (the ID3 tag
  dictionary, \<^verbatim>\<open>os.path\<close>, \<^verbatim>\<open>print\<close>).
\<close>

subsection \<open>Strings\<close>

text \<open>
  A character is a code point below 256, and a string a list of them. The plain ASCII
  strings are those every output stream can encode.
\<close>

definition ascii_char :: "char \<Rightarrow> bool" where
  "ascii_char c = ((of_char c :: nat) < 128)"

definition ascii :: "string \<Rightarrow> bool" where
  "ascii s = list_all ascii_char s"

text \<open>\<^verbatim>\<open>repr(s)\<close> of a string, which the message of a \<^verbatim>\<open>KeyError\<close> and of an
  \<^verbatim>\<open>OSError\<close> with a file name carry: the string in single quotes (in double quotes
  when it has a single quote and no double quote), with the backslash, the quote in use,
  and the characters that are not printable escaped.\<close>

definition printable :: "char \<Rightarrow> bool" where
  "printable c =
     (let n = (of_char c :: nat)
      in if n < 32 then False else if n < 127 then True else if n \<le> 160 then False
         else n \<noteq> 173)"

definition hex2 :: "char \<Rightarrow> string" where
  "hex2 c = [''0123456789abcdef'' ! ((of_char c :: nat) div 16),
             ''0123456789abcdef'' ! ((of_char c :: nat) mod 16)]"

definition repr_char :: "char \<Rightarrow> char \<Rightarrow> string" where
  "repr_char q c =
     (if c = CHR 0x5C then [CHR 0x5C, CHR 0x5C]
      else if c = q then [CHR 0x5C, q]
      else if c = CHR 0x0A then [CHR 0x5C, CHR ''n'']
      else if c = CHR 0x0D then [CHR 0x5C, CHR ''r'']
      else if c = CHR 0x09 then [CHR 0x5C, CHR ''t'']
      else if printable c then [c]
      else [CHR 0x5C, CHR ''x''] @ hex2 c)"

definition py_repr :: "string \<Rightarrow> string" where
  "py_repr s =
     (let q = (if CHR 0x27 \<in> set s \<and> CHR 0x22 \<notin> set s then CHR 0x22 else CHR 0x27)
      in [q] @ concat (map (repr_char q) s) @ [q])"

subsection \<open>Exceptions\<close>

text \<open>
  A value of \<open>exn\<close> is an instance of a subclass of Python's \<^verbatim>\<open>Exception\<close>: the errors the
  code raises itself (\<^verbatim>\<open>FileNotFoundError\<close> at line 27, \<^verbatim>\<open>KeyError\<close> of a subscript,
  \<^verbatim>\<open>AttributeError\<close> of an attribute of \<^verbatim>\<open>None\<close>) and the errors of the two libraries
  (\<^verbatim>\<open>yt_dlp.utils.DownloadError\<close>, \<^verbatim>\<open>mutagen.MutagenError\<close>) and of \<^verbatim>\<open>print\<close>
  (\<^verbatim>\<open>UnicodeEncodeError\<close>), each with its message.
  The clause \<^verbatim>\<open>except Exception as e\<close> matches every one of them. The asynchronous
  \<^verbatim>\<open>KeyboardInterrupt\<close> and \<^verbatim>\<open>SystemExit\<close>, which are not instances of \<^verbatim>\<open>Exception\<close>,
  are outside the model.
\<close>

datatype exn =
    FileNotFoundError string
  | KeyError string
  | AttributeError string
  | DownloadError string
  | MutagenError string
  | UnicodeEncodeError string

text \<open>\<^verbatim>\<open>str(e)\<close>, as the f-strings of the two handlers format it; the message of a
  \<^verbatim>\<open>KeyError\<close> is the \<^verbatim>\<open>repr\<close> of the key.\<close>

fun str_exn :: "exn \<Rightarrow> string" where
  "str_exn (FileNotFoundError m) = m"
| "str_exn (KeyError k) = py_repr k"
| "str_exn (AttributeError m) = m"
| "str_exn (DownloadError m) = m"
| "str_exn (MutagenError m) = m"
| "str_exn (UnicodeEncodeError m) = m"

subsection \<open>ID3 tags, files and the world\<close>

text \<open>The four frame classes the Tagger builds, with the keyword arguments it passes.\<close>

datatype frame =
    TIT2 (encoding: nat) (frame_text: string)
  | TPE1 (encoding: nat) (frame_text: string)
  | TALB (encoding: nat) (frame_text: string)
  | COMM (encoding: nat) (lang: string) (desc: string) (frame_text: string)

text \<open>Modelled from the spec: the key of a tag field in the tag container of the
  \<^verbatim>\<open>mutagen\<close> library, which is imported at lines 4 and 5 and is not among the sources.
  The spec has the fields set or replaced, and a comment field keyed by language and
  description; \<^verbatim>\<open>mutagen\<close>'s \<^verbatim>\<open>ID3\<close> object is a dictionary from a frame's \<^verbatim>\<open>HashKey\<close> to
  the frame, the frame identifier for a text frame and \<^verbatim>\<open>COMM:<desc>:<lang>\<close> for a
  comment.\<close>

fun HashKey :: "frame \<Rightarrow> string" where
  "HashKey (TIT2 _ _) = ''TIT2''"
| "HashKey (TPE1 _ _) = ''TPE1''"
| "HashKey (TALB _ _) = ''TALB''"
| "HashKey (COMM _ l d _) = ''COMM:'' @ d @ '':'' @ l"

type_synonym id3 = "string \<rightharpoonup> frame"

text \<open>
  A file on disk, as far as the two functions can tell files apart: whether its content
  is MPEG audio (\<^verbatim>\<open>MP3(path)\<close> raises otherwise), its ID3 tag container if it has one, and
  whether it may be written (\<^verbatim>\<open>save()\<close> raises otherwise).
\<close>

record disk_file =
  mpeg_audio :: bool
  id3_tags :: "id3 option"
  writable :: bool

text \<open>The world the functions act on: the files by path, the lines printed so far, and
  the encoder of the output stream, which answers a line that is not plain ASCII with
  \<^verbatim>\<open>None\<close> when it can encode the line and with the message of the
  \<^verbatim>\<open>UnicodeEncodeError\<close> it raises otherwise.\<close>

record world =
  files :: "string \<rightharpoonup> disk_file"
  stdout :: "string list"
  encode_error :: "string \<Rightarrow> string option"

subsection \<open>Statements: state passing with exceptions\<close>

text \<open>
  A statement takes the world and gives back the world it leaves, with either the
  exception it raised (\<open>Inl\<close>) or its value (\<open>Inr\<close>). An exception does not undo what
  was done before it was raised.
\<close>

type_synonym 'a py = "world \<Rightarrow> (exn + 'a) \<times> world"

definition return_py :: "'a \<Rightarrow> 'a py" where
  "return_py x = (\<lambda>w. (Inr x, w))"

definition raise_py :: "exn \<Rightarrow> 'a py" where
  "raise_py e = (\<lambda>w. (Inl e, w))"

text \<open>Sequencing: the rest runs on the value and the world of the first statement, and
  is skipped when the first statement raises.\<close>

definition then_py :: "'a py \<Rightarrow> ('a \<Rightarrow> 'b py) \<Rightarrow> 'b py" where
  "then_py m f = (\<lambda>w. case m w of (Inl e, w') \<Rightarrow> (Inl e, w') | (Inr x, w') \<Rightarrow> f x w')"

text \<open>\<^verbatim>\<open>try: m  except Exception as e: h e\<close>.\<close>

definition try_except :: "'a py \<Rightarrow> (exn \<Rightarrow> 'a py) \<Rightarrow> 'a py" where
  "try_except m h = (\<lambda>w. case m w of (Inl e, w') \<Rightarrow> h e w' | (Inr x, w') \<Rightarrow> (Inr x, w'))"

text \<open>An expression that may raise but does not touch the world.\<close>

definition eval_py :: "exn + 'a \<Rightarrow> 'a py" where
  "eval_py r = (\<lambda>w. (r, w))"

text \<open>Whether the output stream can encode a line: every stream encodes plain ASCII.\<close>

definition can_print :: "world \<Rightarrow> string \<Rightarrow> bool" where
  "can_print w s = (ascii s \<or> encode_error w s = None)"

text \<open>\<^verbatim>\<open>print(s)\<close> appends one line to the output stream, which is open; when the stream
  cannot encode the line, nothing is written and \<^verbatim>\<open>UnicodeEncodeError\<close> is raised.\<close>

definition print :: "string \<Rightarrow> unit py" where
  "print s = (\<lambda>w.
     case (if ascii s then None else encode_error w s) of
       None \<Rightarrow> (Inr (), w\<lparr>stdout := stdout w @ [s]\<rparr>)
     | Some m \<Rightarrow> (Inl (UnicodeEncodeError m), w))"

subsection \<open>Dictionaries and paths\<close>

text \<open>\<^verbatim>\<open>d[k]\<close> raises \<^verbatim>\<open>KeyError(k)\<close> on a missing key; \<^verbatim>\<open>d.get(k, default)\<close> does not.\<close>

definition getitem :: "(string \<rightharpoonup> 'v) \<Rightarrow> string \<Rightarrow> exn + 'v" where
  "getitem d k = (case d k of None \<Rightarrow> Inl (KeyError k) | Some v \<Rightarrow> Inr v)"

definition dict_get :: "(string \<rightharpoonup> 'v) \<Rightarrow> string \<Rightarrow> 'v \<Rightarrow> 'v" where
  "dict_get d k dflt = (case d k of None \<Rightarrow> dflt | Some v \<Rightarrow> v)"

text \<open>\<^verbatim>\<open>os.path.join(a, b)\<close> of \<^verbatim>\<open>posixpath\<close>: an absolute \<open>b\<close> replaces \<open>a\<close>; otherwise
  the two are joined by one separator, which is left out when \<open>a\<close> is empty or ends
  with one.\<close>

definition os_path_join :: "string \<Rightarrow> string \<Rightarrow> string" where
  "os_path_join a b =
     (if b \<noteq> [] \<and> hd b = CHR ''/'' then b
      else if a = [] \<or> last a = CHR ''/'' then a @ b
      else a @ ''/'' @ b)"

definition os_path_exists :: "world \<Rightarrow> string \<Rightarrow> bool" where
  "os_path_exists w p = (files w p \<noteq> None)"

subsection \<open>The part of mutagen the Tagger uses\<close>

text \<open>The object \<^verbatim>\<open>MP3(path, ID3=ID3)\<close> returns: the file name and the tags loaded from
  the file, \<^verbatim>\<open>None\<close> when the file has no tag container.\<close>

record mp3 =
  filename :: string
  tags :: "id3 option"

text \<open>Modelled from the spec: \<^verbatim>\<open>mutagen.mp3.MP3\<close>, which opens the tag container of the
  file. Loading raises when the file cannot be opened (the message is the one of the
  \<^verbatim>\<open>OSError\<close>, with the \<^verbatim>\<open>repr\<close> of the path) or is not MPEG audio.\<close>

definition MP3 :: "string \<Rightarrow> mp3 py" where
  "MP3 mp3_path = (\<lambda>w.
     case files w mp3_path of
       None \<Rightarrow>
         (Inl (MutagenError (''[Errno 2] No such file or directory: '' @ py_repr mp3_path)), w)
     | Some f \<Rightarrow>
         if mpeg_audio f then (Inr \<lparr>filename = mp3_path, tags = id3_tags f\<rparr>, w)
         else (Inl (MutagenError (''can'' @ [CHR 0x27] @ ''t sync to MPEG frame'')), w))"

text \<open>Modelled from the spec: \<^verbatim>\<open>audio.add_tags()\<close> of \<^verbatim>\<open>mutagen\<close>, which creates the tag
  container when there is none; it raises when there is one already.\<close>

definition add_tags :: "mp3 \<Rightarrow> exn + mp3" where
  "add_tags audio =
     (case tags audio of
        None \<Rightarrow> Inr (audio\<lparr>tags := Some Map.empty\<rparr>)
      | Some _ \<Rightarrow> Inl (MutagenError ''an ID3 tag already exists''))"

text \<open>Modelled from the spec: \<^verbatim>\<open>audio.tags.add(frame)\<close> of \<^verbatim>\<open>mutagen\<close>, which sets or
  replaces a tag field: the frame is stored under its hash key, in place of a frame that
  was there under the same key. On \<^verbatim>\<open>None\<close> in place of the container the attribute
  lookup raises.\<close>

definition tags_add :: "mp3 \<Rightarrow> frame \<Rightarrow> exn + mp3" where
  "tags_add audio fr =
     (case tags audio of
        None \<Rightarrow> Inl (AttributeError ([CHR 0x27] @ ''NoneType'' @ [CHR 0x27] @
                  '' object has no attribute '' @ [CHR 0x27] @ ''add'' @ [CHR 0x27]))
      | Some t \<Rightarrow> Inr (audio\<lparr>tags := Some (t(HashKey fr \<mapsto> fr))\<rparr>))"

text \<open>Modelled from the spec: what \<^verbatim>\<open>mutagen\<close> writes of a tag container. All four frame
  classes are text frames, and the library leaves a text frame out of the file when its
  text is empty; the spec does not say so.\<close>

definition written_frames :: "id3 \<Rightarrow> id3" where
  "written_frames t =
     (\<lambda>k. case t k of
            None \<Rightarrow> None
          | Some fr \<Rightarrow> if frame_text fr = [] then None else Some fr)"

text \<open>Modelled from the spec: \<^verbatim>\<open>audio.save()\<close> of \<^verbatim>\<open>mutagen\<close>, which persists the
  changes back to the file in place: it writes the frames of the object that have a
  text into the file it was loaded from, in place of the tags the file had, and raises
  when that file cannot be written. It does nothing for an object without tags.\<close>

definition save :: "mp3 \<Rightarrow> unit py" where
  "save audio = (\<lambda>w.
     case tags audio of
       None \<Rightarrow> (Inr (), w)
     | Some t \<Rightarrow>
        (case files w (filename audio) of
           None \<Rightarrow>
             (Inl (MutagenError (''[Errno 2] No such file or directory: '' @
                     py_repr (filename audio))), w)
         | Some f \<Rightarrow>
             if writable f
             then (Inr (), w\<lparr>files := (files w)(filename audio \<mapsto>
                                 f\<lparr>id3_tags := Some (written_frames t)\<rparr>)\<rparr>)
             else (Inl (MutagenError (''[Errno 13] Permission denied: '' @
                          py_repr (filename audio))), w)))"

subsection \<open>The Tagger: add\_metadata\_to\_mp3 (lines 50 to 66)\<close>

text \<open>The body of the \<^verbatim>\<open>try\<close>, lines 52 to 64.\<close>

definition add_metadata_try :: "string \<Rightarrow> (string \<rightharpoonup> string) \<Rightarrow> string \<Rightarrow> unit py" where
  "add_metadata_try mp3_path metadata url =
     then_py (MP3 mp3_path) (\<lambda>audio0.
     then_py (eval_py (if tags audio0 = None then add_tags audio0 else Inr audio0)) (\<lambda>audio1.
     then_py (eval_py (getitem metadata ''title'')) (\<lambda>title.
     then_py (eval_py (tags_add audio1 (TIT2 3 title))) (\<lambda>audio2.
     then_py (eval_py (getitem metadata ''author'')) (\<lambda>author.
     then_py (eval_py (tags_add audio2 (TPE1 3 author))) (\<lambda>audio3.
     then_py (eval_py (tags_add audio3 (TALB 3 ''YouTube''))) (\<lambda>audio4.
     then_py (eval_py (getitem metadata ''description'')) (\<lambda>description.
     then_py (eval_py (tags_add audio4 (COMM 3 ''eng'' ''desc'' description))) (\<lambda>audio5.
     then_py (eval_py (tags_add audio5 (COMM 3 ''eng'' ''url'' url))) (\<lambda>audio6.
     then_py (save audio6) (\<lambda>_.
     print ''Metadata added successfully to MP3.'')))))))))))"

definition add_metadata_to_mp3 :: "string \<Rightarrow> (string \<rightharpoonup> string) \<Rightarrow> string \<Rightarrow> unit py" where
  "add_metadata_to_mp3 mp3_path metadata url =
     try_except (add_metadata_try mp3_path metadata url)
       (\<lambda>e. print (''An error occurred while adding metadata to MP3: '' @ str_exn e))"

subsection \<open>The Fetcher: download\_youtube\_audio (lines 7 to 48)\<close>

text \<open>The options dictionary of lines 10 to 18.\<close>

record postprocessor =
  key :: string
  preferredcodec :: string
  preferredquality :: string

record ydl_opts =
  format :: string
  postprocessors :: "postprocessor list"
  outtmpl :: string

text \<open>
  The extractor is a parameter: \<^verbatim>\<open>with YoutubeDL(ydl_opts) as ydl: ydl.extract_info(url,
  download=True)\<close> is given the options and the URL, acts on the world (it writes files and
  prints progress) and either raises or returns the metadata record, a dictionary.
\<close>

type_synonym info = "string \<rightharpoonup> string"

type_synonym extractor = "ydl_opts \<Rightarrow> string \<Rightarrow> info py"

definition make_ydl_opts :: "string \<Rightarrow> string \<Rightarrow> ydl_opts" where
  "make_ydl_opts random_filename output_path =
     \<lparr>format = ''bestaudio/best'',
      postprocessors =
        [\<lparr>key = ''FFmpegExtractAudio'', preferredcodec = ''mp3'', preferredquality = ''192''\<rparr>],
      outtmpl = os_path_join output_path (random_filename @ ''.%(ext)s'')\<rparr>"

text \<open>Line 24: the path the MP3 file is expected at.\<close>

definition audio_path_of :: "string \<Rightarrow> string \<Rightarrow> string" where
  "audio_path_of random_filename output_path =
     os_path_join output_path (random_filename @ ''.mp3'')"

text \<open>The dictionary returned at lines 40 to 45.\<close>

definition result_dict :: "string \<Rightarrow> string \<Rightarrow> string \<Rightarrow> string \<Rightarrow> (string \<rightharpoonup> string)" where
  "result_dict audio_path title author url =
     [''audio_path'' \<mapsto> audio_path, ''title'' \<mapsto> title, ''author'' \<mapsto> author, ''url'' \<mapsto> url]"

text \<open>
  The body of the \<^verbatim>\<open>try\<close>, lines 21 to 45. \<open>random_filename\<close> is the value of
  \<^verbatim>\<open>str(uuid.uuid4())\<close> at line 8, which the environment supplies.
\<close>

definition download_try ::
  "extractor \<Rightarrow> string \<Rightarrow> string \<Rightarrow> string \<Rightarrow> (string \<rightharpoonup> string) option py" where
  "download_try ydl random_filename url output_path =
     then_py (ydl (make_ydl_opts random_filename output_path) url) (\<lambda>info.
     (let audio_path = audio_path_of random_filename output_path in
     then_py (\<lambda>w. if \<not> os_path_exists w audio_path
                   then raise_py (FileNotFoundError
                          (''Could not find the downloaded MP3 file: '' @ audio_path)) w
                   else return_py () w) (\<lambda>_.
     then_py (eval_py (getitem info ''title'')) (\<lambda>title.
     then_py (eval_py (getitem info ''uploader'')) (\<lambda>author.
     (let metadata = [''title'' \<mapsto> title, ''author'' \<mapsto> author,
                      ''description'' \<mapsto> dict_get info ''description'' '''']  in
     then_py (add_metadata_to_mp3 audio_path metadata url) (\<lambda>_.
     then_py (eval_py (getitem info ''title'')) (\<lambda>title1.
     then_py (print (''Downloaded and extracted audio successfully: '' @ title1)) (\<lambda>_.
     then_py (print (''File saved as: '' @ audio_path)) (\<lambda>_.
     then_py (eval_py (getitem info ''title'')) (\<lambda>title2.
     then_py (eval_py (getitem info ''uploader'')) (\<lambda>author2.
     return_py (Some (result_dict audio_path title2 author2 url))))))))))))))"

definition download_youtube_audio ::
  "extractor \<Rightarrow> string \<Rightarrow> string \<Rightarrow> string \<Rightarrow> (string \<rightharpoonup> string) option py" where
  "download_youtube_audio ydl random_filename url output_path =
     try_except (download_try ydl random_filename url output_path)
       (\<lambda>e. then_py (print (''An error occurred while downloading YouTube audio: '' @ str_exn e))
              (\<lambda>_. return_py None))"

subsection \<open>The tag container before a successful Tagger call saves it\<close>

text \<open>The tag container the file had (an empty one when it had none) with the five frames
  of lines 57 to 61 stored under their hash keys.\<close>

definition metadata_frames :: "id3 option \<Rightarrow> string \<Rightarrow> string \<Rightarrow> string \<Rightarrow> string \<Rightarrow> id3" where
  "metadata_frames old title author description url =
     (case old of None \<Rightarrow> Map.empty | Some t \<Rightarrow> t)
       (''TIT2'' \<mapsto> TIT2 3 title, ''TPE1'' \<mapsto> TPE1 3 author, ''TALB'' \<mapsto> TALB 3 ''YouTube'',
        ''COMM:desc:eng'' \<mapsto> COMM 3 ''eng'' ''desc'' description,
        ''COMM:url:eng'' \<mapsto> COMM 3 ''eng'' ''url'' url)"

subsection \<open>Example environments\<close>





definition world0 :: world where
  "world0 = \<lparr>files = Map.empty, stdout = [], encode_error = (\<lambda>s. None)\<rparr>"


definition fresh_mp3 :: disk_file where
  "fresh_mp3 = \<lparr>mpeg_audio = True, id3_tags = None, writable = True\<rparr>"


definition one_mp3 :: world where
  "one_mp3 = \<lparr>files = [''a.mp3'' \<mapsto> fresh_mp3], stdout = [], encode_error = (\<lambda>s. None)\<rparr>"

definition talk_info :: info where
  "talk_info = [''title'' \<mapsto> ''Some talk'', ''uploader'' \<mapsto> ''Ananda'']"

definition talk_metadata :: "string \<rightharpoonup> string" where
  "talk_metadata = [''title'' \<mapsto> ''Some talk'', ''author'' \<mapsto> ''Ananda'',
                    ''description'' \<mapsto> ''A talk'']"

definition bare_metadata :: "string \<rightharpoonup> string" where
  "bare_metadata = [''title'' \<mapsto> ''Some talk'', ''author'' \<mapsto> ''Ananda'',
                    ''description'' \<mapsto> '''']"


definition ydl_unreachable :: extractor where
  "ydl_unreachable opts url = raise_py (DownloadError ''Unable to download webpage'')"



definition ydl_writes :: "disk_file \<Rightarrow> info \<Rightarrow> extractor" where
  "ydl_writes f info opts url =
     (\<lambda>w. (Inr info,
            w\<lparr>files := (files w)(take (length (outtmpl opts) - 7) (outtmpl opts) @ ''mp3'' \<mapsto> f)\<rparr>))"

section \<open>Both functions, statement by statement\<close>

text \<open>The normal forms below unfold the sequencing and list every way through each
  function; the properties that follow are read off them. First, what \<^verbatim>\<open>print\<close> does.\<close>

lemmas py_defs = return_py_def raise_py_def then_py_def try_except_def eval_py_def

lemma print_ok:
  "can_print w s \<Longrightarrow> print s w = (Inr (), w\<lparr>stdout := stdout w @ [s]\<rparr>)"
  by (auto simp add: can_print_def print_def)


lemma print_returns:
  "print s w = (Inr u, w') \<Longrightarrow> can_print w s \<and> w' = w\<lparr>stdout := stdout w @ [s]\<rparr>"
  by (auto simp add: can_print_def print_def split: if_splits option.splits)


lemma print_files: "files (snd (print s w)) = files w"
  by (simp add: print_def split: option.splits)


lemma can_print_stdout [simp]: "can_print (w\<lparr>stdout := l\<rparr>) s = can_print w s"
  by (simp add: can_print_def)

lemma can_print_files [simp]: "can_print (w\<lparr>files := f\<rparr>) s = can_print w s"
  by (simp add: can_print_def)

lemma ascii_success_line: "ascii ''Metadata added successfully to MP3.''"
  by (simp add: ascii_def ascii_char_def)

lemma add_metadata_try_eq:
  "add_metadata_try p md url w =
     (case files w p of
        None \<Rightarrow> (Inl (MutagenError (''[Errno 2] No such file or directory: '' @ py_repr p)), w)
      | Some f \<Rightarrow>
         (if \<not> mpeg_audio f
          then (Inl (MutagenError (''can'' @ [CHR 0x27] @ ''t sync to MPEG frame'')), w)
          else (case md ''title'' of None \<Rightarrow> (Inl (KeyError ''title''), w) | Some title \<Rightarrow>
               (case md ''author'' of None \<Rightarrow> (Inl (KeyError ''author''), w) | Some author \<Rightarrow>
               (case md ''description'' of None \<Rightarrow> (Inl (KeyError ''description''), w)
               | Some description \<Rightarrow>
                 (if \<not> writable f
                  then (Inl (MutagenError (''[Errno 13] Permission denied: '' @ py_repr p)), w)
                  else (Inr (),
                   w\<lparr>files := (files w)(p \<mapsto>
                         f\<lparr>id3_tags := Some (written_frames
                              (metadata_frames (id3_tags f) title author description url))\<rparr>),
                     stdout := stdout w @ [''Metadata added successfully to MP3.'']\<rparr>)))))))"
  by (simp add: add_metadata_try_def py_defs MP3_def add_tags_def tags_add_def save_def
      getitem_def metadata_frames_def print_ok can_print_def ascii_success_line
      split: option.splits)

lemma add_metadata_try_raises:
  "add_metadata_try p md url w = (Inl e, w') \<Longrightarrow> w' = w"
  by (simp add: add_metadata_try_eq split: option.splits if_splits)

lemma add_metadata_to_mp3_eq:
  "add_metadata_to_mp3 p md url w =
     (case add_metadata_try p md url w of
        (Inl e, w') \<Rightarrow> print (''An error occurred while adding metadata to MP3: '' @ str_exn e) w'
      | (Inr u, w') \<Rightarrow> (Inr (), w'))"
  by (simp add: add_metadata_to_mp3_def try_except_def split: prod.splits sum.splits)

lemma add_metadata_files:
  "files (snd (add_metadata_to_mp3 p md url w)) =
     (case add_metadata_try p md url w of
        (Inl e, w') \<Rightarrow> files w
      | (Inr u, w') \<Rightarrow> files w')"
  by (auto simp add: add_metadata_to_mp3_eq print_files split: prod.splits sum.splits
      dest: add_metadata_try_raises)



lemma download_try_eq:
  "download_try ydl rid url out w =
     (case ydl (make_ydl_opts rid out) url w of
        (Inl e, w1) \<Rightarrow> (Inl e, w1)
      | (Inr info, w1) \<Rightarrow>
         (if files w1 (audio_path_of rid out) = None
          then (Inl (FileNotFoundError (''Could not find the downloaded MP3 file: '' @
                        audio_path_of rid out)), w1)
          else (case info ''title'' of
             None \<Rightarrow> (Inl (KeyError ''title''), w1)
           | Some title \<Rightarrow>
            (case info ''uploader'' of
               None \<Rightarrow> (Inl (KeyError ''uploader''), w1)
             | Some author \<Rightarrow>
                (case add_metadata_to_mp3 (audio_path_of rid out)
                            [''title'' \<mapsto> title, ''author'' \<mapsto> author,
                             ''description'' \<mapsto> dict_get info ''description'' ''''] url w1 of
                   (Inl e, w2) \<Rightarrow> (Inl e, w2)
                 | (Inr u, w2) \<Rightarrow>
                    (case print (''Downloaded and extracted audio successfully: '' @ title) w2 of
                       (Inl e, w3) \<Rightarrow> (Inl e, w3)
                     | (Inr u, w3) \<Rightarrow>
                        (case print (''File saved as: '' @ audio_path_of rid out) w3 of
                           (Inl e, w4) \<Rightarrow> (Inl e, w4)
                         | (Inr u, w4) \<Rightarrow>
                            (Inr (Some [''audio_path'' \<mapsto> audio_path_of rid out,
                                        ''title'' \<mapsto> title, ''author'' \<mapsto> author,
                                        ''url'' \<mapsto> url]), w4))))))))"
  by (auto simp add: download_try_def py_defs os_path_exists_def getitem_def Let_def result_dict_def
      split: prod.splits sum.splits option.splits)

lemma download_youtube_audio_eq:
  "download_youtube_audio ydl rid url out w =
     (case download_try ydl rid url out w of
        (Inl e, w1) \<Rightarrow>
          (case print (''An error occurred while downloading YouTube audio: '' @ str_exn e) w1 of
             (Inl x, w2) \<Rightarrow> (Inl x, w2)
           | (Inr u, w2) \<Rightarrow> (Inr None, w2))
      | (Inr r, w1) \<Rightarrow> (Inr r, w1))"
  by (simp add: download_youtube_audio_def py_defs split: prod.splits sum.splits)

text \<open>What the two functions leave on disk: a Tagger call that raises inside its \<^verbatim>\<open>try\<close>
  changes no file, no call creates or removes one, and \<^verbatim>\<open>print\<close> touches none.\<close>

lemma add_metadata_files_other:
  "q \<noteq> p \<Longrightarrow> files (snd (add_metadata_to_mp3 p md url w)) q = files w q"
  by (simp add: add_metadata_files add_metadata_try_eq split: option.splits)

lemma add_metadata_files_same:
  "files w p = Some f \<Longrightarrow>
   \<exists>t. files (snd (add_metadata_to_mp3 p md url w)) p = Some (f\<lparr>id3_tags := t\<rparr>)"
proof (cases "\<exists>e w'. add_metadata_try p md url w = (Inl e, w')")
  case True
  assume "files w p = Some f"
  with True have "files (snd (add_metadata_to_mp3 p md url w)) p = Some (f\<lparr>id3_tags := id3_tags f\<rparr>)"
    by (auto simp add: add_metadata_files)
  then show ?thesis ..
next
  case False
  assume "files w p = Some f"
  with False show ?thesis
    by (auto simp add: add_metadata_files add_metadata_try_eq split: option.splits if_splits)
qed

lemma add_metadata_files_dom:
  "dom (files (snd (add_metadata_to_mp3 p md url w))) = dom (files w)"
  by (auto simp add: add_metadata_files add_metadata_try_eq split: option.splits if_splits)

lemma add_metadata_keeps_file:
  "os_path_exists (snd (add_metadata_to_mp3 p md url w)) q = os_path_exists w q"
  using add_metadata_files_dom [of p md url w]
  by (auto simp add: os_path_exists_def dom_def)

lemma written_frames_again:
  "written_frames (metadata_frames (Some (written_frames
       (metadata_frames old title author description url))) title author description url)
   = written_frames (metadata_frames old title author description url)"
  by (rule ext) (simp add: written_frames_def metadata_frames_def split: option.splits)

text \<open>What the Fetcher leaves on disk is what the Tagger left, or what the extraction step
  left when the Tagger was not reached.\<close>

lemma download_files:
  "files (snd (download_youtube_audio ydl rid url out w)) =
     (case ydl (make_ydl_opts rid out) url w of
        (Inl e, w1) \<Rightarrow> files w1
      | (Inr info, w1) \<Rightarrow>
         (if files w1 (audio_path_of rid out) = None then files w1
          else (case info ''title'' of None \<Rightarrow> files w1 | Some title \<Rightarrow>
               (case info ''uploader'' of None \<Rightarrow> files w1 | Some author \<Rightarrow>
                  files (snd (add_metadata_to_mp3 (audio_path_of rid out)
                            [''title'' \<mapsto> title, ''author'' \<mapsto> author,
                             ''description'' \<mapsto> dict_get info ''description'' ''''] url w1))))))"
proof -
  have p: "files w'' = files w'" if "print s w' = (x, w'')" for s w' x w''
    using print_files [of s w'] that by simp
  show ?thesis
    by (auto simp add: download_youtube_audio_eq download_try_eq
        split: prod.splits sum.splits option.splits dest!: p)
qed

text \<open>A run of the Fetcher whose \<^verbatim>\<open>try\<close> body completes went through every step.\<close>

lemma download_try_returns:
  assumes "download_try ydl rid url out w = (Inr r, w')"
  shows "\<exists>info w1 title author w2.
           ydl (make_ydl_opts rid out) url w = (Inr info, w1)
           \<and> files w1 (audio_path_of rid out) \<noteq> None
           \<and> info ''title'' = Some title
           \<and> info ''uploader'' = Some author
           \<and> add_metadata_to_mp3 (audio_path_of rid out)
                [''title'' \<mapsto> title, ''author'' \<mapsto> author,
                 ''description'' \<mapsto> dict_get info ''description'' ''''] url w1 = (Inr (), w2)
           \<and> can_print w2 (''Downloaded and extracted audio successfully: '' @ title)
           \<and> can_print w2 (''File saved as: '' @ audio_path_of rid out)
           \<and> r = Some [''audio_path'' \<mapsto> audio_path_of rid out, ''title'' \<mapsto> title,
                        ''author'' \<mapsto> author, ''url'' \<mapsto> url]
           \<and> w' = w2\<lparr>stdout := stdout w2 @
                  [''Downloaded and extracted audio successfully: '' @ title,
                   ''File saved as: '' @ audio_path_of rid out]\<rparr>"
proof -
  obtain x w1 where y: "ydl (make_ydl_opts rid out) url w = (x, w1)"
    by (meson surj_pair)
  from assms y obtain info where x: "x = Inr info"
    by (cases x) (simp_all add: download_try_eq)
  from assms y x have ex: "files w1 (audio_path_of rid out) \<noteq> None"
    by (auto simp add: download_try_eq split: if_splits)
  from assms y x ex obtain title where ti: "info ''title'' = Some title"
    by (cases "info ''title''") (simp_all add: download_try_eq)
  from assms y x ex ti obtain author where au: "info ''uploader'' = Some author"
    by (cases "info ''uploader''") (simp_all add: download_try_eq)
  let ?md = "[''title'' \<mapsto> title, ''author'' \<mapsto> author,
              ''description'' \<mapsto> dict_get info ''description'' '''']"
  obtain t w2 where tg: "add_metadata_to_mp3 (audio_path_of rid out) ?md url w1 = (t, w2)"
    by (meson surj_pair)
  from assms y x ex ti au tg have t: "t = Inr ()"
    by (cases t) (simp_all add: download_try_eq)
  obtain p1 w3 where p1: "print (''Downloaded and extracted audio successfully: '' @ title) w2
      = (p1, w3)"
    by (meson surj_pair)
  from assms y x ex ti au tg t p1 have p1r: "p1 = Inr ()"
    by (cases p1) (simp_all add: download_try_eq)
  with p1 have c1: "can_print w2 (''Downloaded and extracted audio successfully: '' @ title)"
    and w3: "w3 = w2\<lparr>stdout := stdout w2 @
               [''Downloaded and extracted audio successfully: '' @ title]\<rparr>"
    using print_returns by blast+
  obtain p2 w4 where p2: "print (''File saved as: '' @ audio_path_of rid out) w3 = (p2, w4)"
    by (meson surj_pair)
  from assms y x ex ti au tg t p1 p1r p2 have p2r: "p2 = Inr ()"
    by (cases p2) (simp_all add: download_try_eq)
  with p2 have c2: "can_print w3 (''File saved as: '' @ audio_path_of rid out)"
    and w4: "w4 = w3\<lparr>stdout := stdout w3 @ [''File saved as: '' @ audio_path_of rid out]\<rparr>"
    using print_returns by blast+
  from c2 w3 have c2': "can_print w2 (''File saved as: '' @ audio_path_of rid out)"
    by simp
  from assms y x ex ti au tg t p1 p1r p2 p2r
  have "r = Some [''audio_path'' \<mapsto> audio_path_of rid out, ''title'' \<mapsto> title,
                  ''author'' \<mapsto> author, ''url'' \<mapsto> url]" and "w' = w4"
    by (simp_all add: download_try_eq)
  with y x ex ti au tg t c1 c2' w3 w4 show ?thesis
    by simp
qed

text \<open>The expected path is the output directory, a separator and the file name; two
  identifiers without a separator in them give two paths in the same directory.\<close>

lemma audio_path_of_inj:
  assumes "CHR ''/'' \<notin> set r1" and "CHR ''/'' \<notin> set r2"
    and "audio_path_of r1 output_path = audio_path_of r2 output_path"
  shows "r1 = r2"
proof -
  have "hd (r @ ''.mp3'') \<noteq> CHR ''/''" if "CHR ''/'' \<notin> set r" for r
    using that by (cases r) auto
  with assms show ?thesis
    by (auto simp add: audio_path_of_def os_path_join_def split: if_splits)
qed

section \<open>Runs of the example environments\<close>

lemma audio_path_r1: "audio_path_of ''r1'' ''out'' = ''out/r1.mp3''"
  by (simp add: audio_path_of_def os_path_join_def)

lemma can_print_world0: "can_print (world0\<lparr>files := fs\<rparr>) s"
  by (simp add: can_print_def world0_def)



lemma ydl_writes_run:
  "ydl_writes f info (make_ydl_opts ''r1'' ''out'') url world0
     = (Inr info, world0\<lparr>files := [''out/r1.mp3'' \<mapsto> f]\<rparr>)"
  by (simp add: ydl_writes_def make_ydl_opts_def os_path_join_def world0_def)


lemma talk_tagging:
  "add_metadata_try ''a.mp3'' talk_metadata ''https://example.org/v'' one_mp3 =
     (Inr (), one_mp3\<lparr>files := (files one_mp3)(''a.mp3'' \<mapsto> fresh_mp3\<lparr>id3_tags :=
          Some (written_frames (metadata_frames (id3_tags fresh_mp3) ''Some talk'' ''Ananda''
                  ''A talk'' ''https://example.org/v''))\<rparr>),
        stdout := stdout one_mp3 @ [''Metadata added successfully to MP3.'']\<rparr>)"
  by (simp add: add_metadata_try_eq one_mp3_def talk_metadata_def fresh_mp3_def)

lemma talk_frames:
  "written_frames (metadata_frames None ''Some talk'' ''Ananda'' ''A talk'' ''https://example.org/v'')
   = [''TIT2'' \<mapsto> TIT2 3 ''Some talk'',
      ''TPE1'' \<mapsto> TPE1 3 ''Ananda'',
      ''TALB'' \<mapsto> TALB 3 ''YouTube'',
      ''COMM:desc:eng'' \<mapsto> COMM 3 ''eng'' ''desc'' ''A talk'',
      ''COMM:url:eng'' \<mapsto> COMM 3 ''eng'' ''url'' ''https://example.org/v'']"
  by (rule ext) (simp add: written_frames_def metadata_frames_def)

lemma bare_frames:
  "written_frames (metadata_frames None ''Some talk'' ''Ananda'' '''' ''https://example.org/v'')
   = [''TIT2'' \<mapsto> TIT2 3 ''Some talk'',
      ''TPE1'' \<mapsto> TPE1 3 ''Ananda'',
      ''TALB'' \<mapsto> TALB 3 ''YouTube'',
      ''COMM:url:eng'' \<mapsto> COMM 3 ''eng'' ''url'' ''https://example.org/v'']"
  by (rule ext) (simp add: written_frames_def metadata_frames_def)

lemma bare_tagging:
  "add_metadata_try ''a.mp3'' bare_metadata ''https://example.org/v'' one_mp3 =
     (Inr (), one_mp3\<lparr>files := (files one_mp3)(''a.mp3'' \<mapsto> fresh_mp3\<lparr>id3_tags :=
          Some (written_frames (metadata_frames (id3_tags fresh_mp3) ''Some talk'' ''Ananda''
                  '''' ''https://example.org/v''))\<rparr>),
        stdout := stdout one_mp3 @ [''Metadata added successfully to MP3.'']\<rparr>)"
  by (simp add: add_metadata_try_eq one_mp3_def bare_metadata_def fresh_mp3_def)

lemma talk_run:
  "download_youtube_audio (ydl_writes fresh_mp3 talk_info)
          ''r1'' ''https://example.org/v'' ''out'' world0
     = (Inr (Some (result_dict ''out/r1.mp3'' ''Some talk'' ''Ananda'' ''https://example.org/v'')),
        world0\<lparr>files := [''out/r1.mp3'' \<mapsto> fresh_mp3\<lparr>id3_tags :=
             Some (written_frames (metadata_frames None ''Some talk'' ''Ananda'' ''''
                     ''https://example.org/v''))\<rparr>],
          stdout := [''Metadata added successfully to MP3.'',
                     ''Downloaded and extracted audio successfully: Some talk'',
                     ''File saved as: out/r1.mp3'']\<rparr>)"
  by (simp add: download_youtube_audio_eq download_try_eq ydl_writes_run audio_path_r1
      add_metadata_to_mp3_eq add_metadata_try_eq talk_info_def dict_get_def fresh_mp3_def
      print_ok can_print_world0 result_dict_def)
    (simp add: world0_def print_ok can_print_def audio_path_r1)


lemma can_print_world0_plain: "can_print world0 s"
  by (simp add: can_print_def world0_def)


section \<open>Error handling\<close>







lemma ascii_key_lines:
  "ascii (''An error occurred while downloading YouTube audio: '' @ str_exn (KeyError ''title''))"
  "ascii (''An error occurred while downloading YouTube audio: '' @ str_exn (KeyError ''uploader''))"
  by (simp_all add: ascii_def ascii_char_def py_repr_def repr_char_def printable_def Let_def)

text \<open>
  C9. When the extraction step returned, the expected file is on disk, and the metadata
  record has no \<^verbatim>\<open>title\<close> or no \<^verbatim>\<open>uploader\<close> key, the subscript raises \<^verbatim>\<open>KeyError\<close> of
  the first missing key, the handler swallows it, and the function returns \<^verbatim>\<open>None\<close>;
  the world is the one the extraction step left plus the diagnostic line, so the MP3
  file is still on disk. The diagnostic line is plain ASCII, which every stream encodes.
\<close>

theorem missing_title_or_uploader:
  assumes "ydl (make_ydl_opts random_filename output_path) url w = (Inr info, w1)"
    and "os_path_exists w1 (audio_path_of random_filename output_path)"
    and "info ''title'' = None \<or> info ''uploader'' = None"
  shows "\<exists>k. (k = ''title'' \<or> k = ''uploader'')
           \<and> download_try ydl random_filename url output_path w = (Inl (KeyError k), w1)
           \<and> download_youtube_audio ydl random_filename url output_path w =
               (Inr None, w1\<lparr>stdout := stdout w1 @
                  [''An error occurred while downloading YouTube audio: '' @ str_exn (KeyError k)]\<rparr>)
           \<and> os_path_exists (snd (download_youtube_audio ydl random_filename url output_path w))
                (audio_path_of random_filename output_path)"
proof (cases "info ''title''")
  case None
  with assms(1,2) have "download_try ydl random_filename url output_path w
      = (Inl (KeyError ''title''), w1)"
    by (simp add: download_try_eq os_path_exists_def)
  with assms(2) show ?thesis
    using ascii_key_lines(1)
    by (simp add: download_youtube_audio_eq print_ok can_print_def os_path_exists_def
        del: str_exn.simps)
next
  case (Some t)
  with assms have "info ''uploader'' = None" by simp
  with assms(1,2) Some have "download_try ydl random_filename url output_path w
      = (Inl (KeyError ''uploader''), w1)"
    by (simp add: download_try_eq os_path_exists_def)
  with assms(2) show ?thesis
    using ascii_key_lines(2)
    by (simp add: download_youtube_audio_eq print_ok can_print_def os_path_exists_def
        del: str_exn.simps)
qed

theorem missing_title_or_uploader_witness:
  "fst (download_youtube_audio (ydl_writes fresh_mp3 [''title'' \<mapsto> ''Some talk''])
          ''r1'' ''https://example.org/v'' ''out'' world0) = Inr None
   \<and> os_path_exists (snd (download_youtube_audio
          (ydl_writes fresh_mp3 [''title'' \<mapsto> ''Some talk''])
          ''r1'' ''https://example.org/v'' ''out'' world0)) ''out/r1.mp3''
   \<and> \<not> os_path_exists world0 ''out/r1.mp3''"
proof -
  have b: "os_path_exists (world0\<lparr>files := [''out/r1.mp3'' \<mapsto> fresh_mp3]\<rparr>)
             (audio_path_of ''r1'' ''out'')"
    by (simp add: os_path_exists_def audio_path_r1)
  have c: "[''title'' \<mapsto> ''Some talk''] ''title'' = None
           \<or> [''title'' \<mapsto> ''Some talk''] ''uploader'' = None"
    by simp
  show ?thesis
    using missing_title_or_uploader [where ydl = "ydl_writes fresh_mp3 [''title'' \<mapsto> ''Some talk'']"
        and random_filename = "''r1''" and output_path = "''out''"
        and url = "''https://example.org/v''" and w = world0, OF ydl_writes_run b c]
    by (auto simp add: audio_path_r1 os_path_exists_def world0_def)
qed




section \<open>What the two functions compute\<close>





text \<open>
  Counterexample to C5 as stated: a successful call that leaves four frames on the file.
  The description is the empty string, the default of line 33; the \<^verbatim>\<open>COMM\<close> frame of
  descriptor \<^verbatim>\<open>desc\<close> is added to the tag container and is not written by \<^verbatim>\<open>save\<close>.
\<close>

theorem empty_text_frame_left_out_counterexample:
  "fst (add_metadata_try ''a.mp3'' bare_metadata ''https://example.org/v'' one_mp3) = Inr ()
   \<and> files (snd (add_metadata_to_mp3 ''a.mp3'' bare_metadata ''https://example.org/v'' one_mp3))
       ''a.mp3''
     = Some (fresh_mp3\<lparr>id3_tags := Some
          [''TIT2'' \<mapsto> TIT2 3 ''Some talk'',
           ''TPE1'' \<mapsto> TPE1 3 ''Ananda'',
           ''TALB'' \<mapsto> TALB 3 ''YouTube'',
           ''COMM:url:eng'' \<mapsto> COMM 3 ''eng'' ''url'' ''https://example.org/v'']\<rparr>)"
  by (simp add: add_metadata_files bare_tagging) (simp add: fresh_mp3_def bare_frames)

text \<open>
  C5, amended. Every call of \<^verbatim>\<open>add_metadata_to_mp3\<close> whose \<^verbatim>\<open>try\<close> body completes found the
  file and the three metadata keys. It sets exactly five entries in the tag container the
  file had (an empty one if it had none): \<^verbatim>\<open>TIT2\<close> to the title, \<^verbatim>\<open>TPE1\<close> to the author,
  \<^verbatim>\<open>TALB\<close> to the constant \<^verbatim>\<open>YouTube\<close>, the \<^verbatim>\<open>COMM\<close> frame of language \<^verbatim>\<open>eng\<close> and
  descriptor \<^verbatim>\<open>desc\<close> to the description, and the \<^verbatim>\<open>COMM\<close> frame of language \<^verbatim>\<open>eng\<close>
  and descriptor \<^verbatim>\<open>url\<close> to the URL, all with encoding 3. It persists the container to
  the file in place, every frame whose text is empty left out, and changes nothing else
  on disk: of the five frames the file carries those with a non-empty text, \<^verbatim>\<open>TALB\<close>
  always, and all five when title, author, description and URL are not empty.
\<close>

theorem tagger_sets_five_fields:
  assumes "add_metadata_try mp3_path metadata url w = (Inr (), w')"
  shows "\<exists>f title author description t'.
           files w mp3_path = Some f
           \<and> metadata ''title'' = Some title
           \<and> metadata ''author'' = Some author
           \<and> metadata ''description'' = Some description
           \<and> add_metadata_to_mp3 mp3_path metadata url w = (Inr (), w')
           \<and> files w' = (files w)(mp3_path \<mapsto> f\<lparr>id3_tags := Some t'\<rparr>)
           \<and> (\<forall>k. t' k =
                 (case ((case id3_tags f of None \<Rightarrow> Map.empty | Some t \<Rightarrow> t)
                          (''TIT2'' \<mapsto> TIT2 3 title,
                           ''TPE1'' \<mapsto> TPE1 3 author,
                           ''TALB'' \<mapsto> TALB 3 ''YouTube'',
                           ''COMM:desc:eng'' \<mapsto> COMM 3 ''eng'' ''desc'' description,
                           ''COMM:url:eng'' \<mapsto> COMM 3 ''eng'' ''url'' url)) k of
                    None \<Rightarrow> None
                  | Some fr \<Rightarrow> if frame_text fr = [] then None else Some fr))
           \<and> t' ''TIT2'' = (if title = [] then None else Some (TIT2 3 title))
           \<and> t' ''TPE1'' = (if author = [] then None else Some (TPE1 3 author))
           \<and> t' ''TALB'' = Some (TALB 3 ''YouTube'')
           \<and> t' ''COMM:desc:eng'' =
               (if description = [] then None else Some (COMM 3 ''eng'' ''desc'' description))
           \<and> t' ''COMM:url:eng'' = (if url = [] then None else Some (COMM 3 ''eng'' ''url'' url))"
proof -
  from assms obtain f title author description where
    a: "files w mp3_path = Some f" "metadata ''title'' = Some title"
       "metadata ''author'' = Some author" "metadata ''description'' = Some description"
    and w': "w' = w\<lparr>files := (files w)(mp3_path \<mapsto>
                   f\<lparr>id3_tags := Some (written_frames
                        (metadata_frames (id3_tags f) title author description url))\<rparr>),
               stdout := stdout w @ [''Metadata added successfully to MP3.'']\<rparr>"
    by (auto simp add: add_metadata_try_eq split: option.splits if_splits)
  let ?t = "written_frames (metadata_frames (id3_tags f) title author description url)"
  have "add_metadata_to_mp3 mp3_path metadata url w = (Inr (), w')"
    using assms by (simp add: add_metadata_to_mp3_eq)
  moreover have "files w' = (files w)(mp3_path \<mapsto> f\<lparr>id3_tags := Some ?t\<rparr>)"
    by (simp add: w')
  moreover have "\<forall>k. ?t k =
                 (case ((case id3_tags f of None \<Rightarrow> Map.empty | Some t \<Rightarrow> t)
                          (''TIT2'' \<mapsto> TIT2 3 title,
                           ''TPE1'' \<mapsto> TPE1 3 author,
                           ''TALB'' \<mapsto> TALB 3 ''YouTube'',
                           ''COMM:desc:eng'' \<mapsto> COMM 3 ''eng'' ''desc'' description,
                           ''COMM:url:eng'' \<mapsto> COMM 3 ''eng'' ''url'' url)) k of
                    None \<Rightarrow> None
                  | Some fr \<Rightarrow> if frame_text fr = [] then None else Some fr)"
    by (simp add: written_frames_def metadata_frames_def)
  moreover have "?t ''TIT2'' = (if title = [] then None else Some (TIT2 3 title))"
    "?t ''TPE1'' = (if author = [] then None else Some (TPE1 3 author))"
    "?t ''TALB'' = Some (TALB 3 ''YouTube'')"
    "?t ''COMM:desc:eng'' =
       (if description = [] then None else Some (COMM 3 ''eng'' ''desc'' description))"
    "?t ''COMM:url:eng'' = (if url = [] then None else Some (COMM 3 ''eng'' ''url'' url))"
    by (simp_all add: written_frames_def metadata_frames_def)
  ultimately show ?thesis
    using a by blast
qed

theorem tagger_sets_five_fields_witness:
  "files (snd (add_metadata_to_mp3 ''a.mp3'' talk_metadata ''https://example.org/v'' one_mp3)) =
     [''a.mp3'' \<mapsto> \<lparr>mpeg_audio = True,
        id3_tags = Some [''TIT2'' \<mapsto> TIT2 3 ''Some talk'',
                         ''TPE1'' \<mapsto> TPE1 3 ''Ananda'',
                         ''TALB'' \<mapsto> TALB 3 ''YouTube'',
                         ''COMM:desc:eng'' \<mapsto> COMM 3 ''eng'' ''desc'' ''A talk'',
                         ''COMM:url:eng'' \<mapsto> COMM 3 ''eng'' ''url'' ''https://example.org/v''],
        writable = True\<rparr>]"
proof -
  from tagger_sets_five_fields [OF talk_tagging]
  obtain f title author description t' where
    a: "files one_mp3 ''a.mp3'' = Some f" "talk_metadata ''title'' = Some title"
       "talk_metadata ''author'' = Some author" "talk_metadata ''description'' = Some description"
    and r: "add_metadata_to_mp3 ''a.mp3'' talk_metadata ''https://example.org/v'' one_mp3
              = (Inr (), one_mp3\<lparr>files := (files one_mp3)(''a.mp3'' \<mapsto> fresh_mp3\<lparr>id3_tags :=
          Some (written_frames (metadata_frames (id3_tags fresh_mp3) ''Some talk'' ''Ananda''
                  ''A talk'' ''https://example.org/v''))\<rparr>),
        stdout := stdout one_mp3 @ [''Metadata added successfully to MP3.'']\<rparr>)"
    by blast
  from r show ?thesis
    by (simp add: one_mp3_def fresh_mp3_def talk_frames)
qed

text \<open>
  Counterexample to C7 as stated: the record has no \<^verbatim>\<open>description\<close>, the Tagger succeeds,
  and the file carries four frames, none of them the \<^verbatim>\<open>COMM\<close> frame of descriptor
  \<^verbatim>\<open>desc\<close>.
\<close>

theorem empty_description_frame_left_out_counterexample:
  "files (snd (download_youtube_audio (ydl_writes fresh_mp3 talk_info)
                 ''r1'' ''https://example.org/v'' ''out'' world0)) ''out/r1.mp3''
   = Some (fresh_mp3\<lparr>id3_tags := Some
          [''TIT2'' \<mapsto> TIT2 3 ''Some talk'',
           ''TPE1'' \<mapsto> TPE1 3 ''Ananda'',
           ''TALB'' \<mapsto> TALB 3 ''YouTube'',
           ''COMM:url:eng'' \<mapsto> COMM 3 ''eng'' ''url'' ''https://example.org/v'']\<rparr>)"
  by (simp add: talk_run bare_frames)

text \<open>
  C7, amended. In every run in which the record of the extraction step has no
  \<^verbatim>\<open>description\<close> key, the description defaults to the empty string and the Tagger is
  called with it: the files the Fetcher leaves are those the Tagger leaves on that
  metadata. The Tagger adds the \<^verbatim>\<open>COMM\<close> frame of descriptor \<^verbatim>\<open>desc\<close> with the empty text
  to the tag container, and \<^verbatim>\<open>save\<close> leaves a frame with empty text out: when the Tagger
  can write the file (it is MPEG audio and writable), the file then carries no \<^verbatim>\<open>COMM\<close>
  frame of descriptor \<^verbatim>\<open>desc\<close>, while \<^verbatim>\<open>TALB\<close> and the other frames with a non-empty
  text are written.
\<close>

theorem absent_description_frame_left_out:
  assumes "ydl (make_ydl_opts random_filename output_path) url w = (Inr info, w1)"
    and "info ''description'' = None"
    and "info ''title'' = Some title"
    and "info ''uploader'' = Some author"
    and "files w1 (audio_path_of random_filename output_path) = Some f"
    and "mpeg_audio f"
    and "writable f"
  shows "files (snd (download_youtube_audio ydl random_filename url output_path w))
           = files (snd (add_metadata_to_mp3 (audio_path_of random_filename output_path)
                [''title'' \<mapsto> title, ''author'' \<mapsto> author, ''description'' \<mapsto> ''''] url w1))
         \<and> (\<exists>f' t. files (snd (download_youtube_audio ydl random_filename url output_path w))
                     (audio_path_of random_filename output_path) = Some f'
                  \<and> id3_tags f' = Some t
                  \<and> t ''COMM:desc:eng'' = None
                  \<and> t ''TALB'' = Some (TALB 3 ''YouTube'')
                  \<and> t ''TIT2'' = (if title = [] then None else Some (TIT2 3 title))
                  \<and> t ''TPE1'' = (if author = [] then None else Some (TPE1 3 author))
                  \<and> t ''COMM:url:eng'' = (if url = [] then None else Some (COMM 3 ''eng'' ''url'' url)))"
  using assms
  by (simp add: download_files dict_get_def add_metadata_files add_metadata_try_eq
      written_frames_def metadata_frames_def)

theorem absent_description_frame_left_out_witness:
  "\<exists>f' t. files (snd (download_youtube_audio
               (ydl_writes fresh_mp3 [''title'' \<mapsto> ''clip'', ''uploader'' \<mapsto> ''someone''])
               ''r1'' ''https://example.org/clip'' ''out'' world0)) ''out/r1.mp3'' = Some f'
          \<and> id3_tags f' = Some t
          \<and> t ''COMM:desc:eng'' = None
          \<and> t ''TALB'' = Some (TALB 3 ''YouTube'')
          \<and> t ''TIT2'' = Some (TIT2 3 ''clip'')"
proof -
  let ?info = "[''title'' \<mapsto> ''clip'', ''uploader'' \<mapsto> ''someone'']"
  have b: "?info ''description'' = None" by simp
  have c: "?info ''title'' = Some ''clip''" by simp
  have d: "?info ''uploader'' = Some ''someone''" by simp
  have e: "files (world0\<lparr>files := [''out/r1.mp3'' \<mapsto> fresh_mp3]\<rparr>) (audio_path_of ''r1'' ''out'')
           = Some fresh_mp3"
    by (simp add: audio_path_r1)
  have g: "mpeg_audio fresh_mp3" "writable fresh_mp3"
    by (simp_all add: fresh_mp3_def)
  from absent_description_frame_left_out [where ydl = "ydl_writes fresh_mp3 ?info"
        and random_filename = "''r1''" and output_path = "''out''"
        and url = "''https://example.org/clip''" and w = world0,
        OF ydl_writes_run b c d e g, THEN conjunct2]
  show ?thesis
    by (simp only: audio_path_r1) auto
qed

section \<open>Effects on the disk\<close>

text \<open>
  C4. \<^verbatim>\<open>add_metadata_to_mp3\<close> is idempotent on the disk: for every file, metadata
  dictionary and URL, the files after two calls in succession with the same arguments are
  the files after one call. Each of the five frames is stored under its own hash key, so
  the second call replaces the five frames of the first and adds no entry.
\<close>

theorem add_metadata_idempotent:
  "files (snd (add_metadata_to_mp3 mp3_path metadata url
                 (snd (add_metadata_to_mp3 mp3_path metadata url w))))
   = files (snd (add_metadata_to_mp3 mp3_path metadata url w))"
  by (simp add: add_metadata_files add_metadata_try_eq written_frames_again
      split: option.splits)

theorem add_metadata_idempotent_witness:
  "files (snd (add_metadata_to_mp3 ''a.mp3'' talk_metadata ''https://example.org/v''
                 (snd (add_metadata_to_mp3 ''a.mp3'' talk_metadata ''https://example.org/v''
                         one_mp3)))) ''a.mp3''
   = Some (fresh_mp3\<lparr>id3_tags := Some
        [''TIT2'' \<mapsto> TIT2 3 ''Some talk'',
         ''TPE1'' \<mapsto> TPE1 3 ''Ananda'',
         ''TALB'' \<mapsto> TALB 3 ''YouTube'',
         ''COMM:desc:eng'' \<mapsto> COMM 3 ''eng'' ''desc'' ''A talk'',
         ''COMM:url:eng'' \<mapsto> COMM 3 ''eng'' ''url'' ''https://example.org/v'']\<rparr>)"
  using add_metadata_idempotent [of "''a.mp3''" talk_metadata "''https://example.org/v''" one_mp3]
  by (simp add: add_metadata_files talk_tagging) (simp add: fresh_mp3_def talk_frames)

text \<open>
  Counterexample to C3 as stated: a failed run can leave a file behind. The extractor
  below transcodes the audio of a direct media link and returns a record with a title but
  no uploader: the run returns \<^verbatim>\<open>None\<close>, and the file that was not on disk before the
  call is there after it.
\<close>

theorem zero_files_on_failure_counterexample:
  "fst (download_youtube_audio (ydl_writes fresh_mp3 [''title'' \<mapsto> ''clip''])
          ''r1'' ''https://example.org/clip.mp4'' ''out'' world0) = Inr None
   \<and> files world0 ''out/r1.mp3'' = None
   \<and> files (snd (download_youtube_audio (ydl_writes fresh_mp3 [''title'' \<mapsto> ''clip''])
          ''r1'' ''https://example.org/clip.mp4'' ''out'' world0)) ''out/r1.mp3'' = Some fresh_mp3"
  by (simp add: download_youtube_audio_eq download_try_eq ydl_writes_run audio_path_r1
      print_ok can_print_world0_plain)
     (simp add: world0_def)

text \<open>
  C3, amended. \<^verbatim>\<open>download_youtube_audio\<close> itself creates and removes no file: after every
  invocation the paths on disk are those the extraction and transcode step left, every
  file other than \<^verbatim>\<open>{output_directory}/{random_id}.mp3\<close> is as that step left it, and
  that one differs at most in its tags. When the function returns a mapping, that file is
  on disk. When the extraction step raises, the files are exactly those the step left, so
  that no file is written when the step wrote none; the function then returns no mapping,
  and it returns \<^verbatim>\<open>None\<close> when the output stream can encode the diagnostic line.
\<close>

theorem fetcher_file_effects:
  assumes "ydl (make_ydl_opts random_filename output_path) url w = (x, w1)"
    and "download_youtube_audio ydl random_filename url output_path w = (r, w')"
  shows "dom (files w') = dom (files w1)
         \<and> (\<forall>p. p \<noteq> audio_path_of random_filename output_path \<longrightarrow> files w' p = files w1 p)
         \<and> (\<forall>f. files w1 (audio_path_of random_filename output_path) = Some f \<longrightarrow>
               (\<exists>t. files w' (audio_path_of random_filename output_path) = Some (f\<lparr>id3_tags := t\<rparr>)))
         \<and> ((\<exists>d. r = Inr (Some d)) \<longrightarrow> os_path_exists w' (audio_path_of random_filename output_path))
         \<and> (\<forall>e. x = Inl e \<longrightarrow>
               files w' = files w1
               \<and> (\<forall>d. r \<noteq> Inr (Some d))
               \<and> (can_print w1 (''An error occurred while downloading YouTube audio: '' @ str_exn e)
                    \<longrightarrow> r = Inr None))"
proof -
  let ?ap = "audio_path_of random_filename output_path"
  from assms(2) have fw: "files w' = files (snd (download_youtube_audio ydl random_filename url
      output_path w))"
    by simp
  have same_tags: "\<forall>f. files w1 ?ap = Some f \<longrightarrow> (\<exists>t. Some f = Some (f\<lparr>id3_tags := t\<rparr>))"
  proof (intro allI impI)
    fix f :: disk_file
    have "Some f = Some (f\<lparr>id3_tags := id3_tags f\<rparr>)" by simp
    then show "\<exists>t. Some f = Some (f\<lparr>id3_tags := t\<rparr>)" ..
  qed
  have mapping: "os_path_exists w' ?ap" if "r = Inr (Some d)" for d
  proof -
    from assms(2) that have "download_try ydl random_filename url output_path w = (Inr (Some d), w')"
      by (cases "download_try ydl random_filename url output_path w")
         (auto simp add: download_youtube_audio_eq split: sum.splits prod.splits)
    from download_try_returns [OF this] assms(1) obtain info title author w2 where
      ex: "files w1 ?ap \<noteq> None"
      and tg: "add_metadata_to_mp3 ?ap [''title'' \<mapsto> title, ''author'' \<mapsto> author,
                 ''description'' \<mapsto> dict_get info ''description'' ''''] url w1 = (Inr (), w2)"
      and w': "w' = w2\<lparr>stdout := stdout w2 @
                  [''Downloaded and extracted audio successfully: '' @ title,
                   ''File saved as: '' @ ?ap]\<rparr>"
      by auto
    from tg have "w2 = snd (add_metadata_to_mp3 ?ap [''title'' \<mapsto> title, ''author'' \<mapsto> author,
                 ''description'' \<mapsto> dict_get info ''description'' ''''] url w1)"
      by simp
    then have "os_path_exists w2 ?ap = os_path_exists w1 ?ap"
      by (simp only: add_metadata_keeps_file)
    with ex show ?thesis
      by (simp add: w' os_path_exists_def)
  qed
  show ?thesis
  proof (cases x)
    case (Inl e)
    with assms(1) have f: "files w' = files w1"
      by (simp add: fw download_files)
    from assms Inl have t: "download_try ydl random_filename url output_path w = (Inl e, w1)"
      by (simp add: download_try_eq)
    have n: "\<forall>d. r \<noteq> Inr (Some d)"
      using assms(2) t
      by (cases "print (''An error occurred while downloading YouTube audio: '' @ str_exn e) w1")
         (auto simp add: download_youtube_audio_eq split: sum.splits)
    have c: "r = Inr None"
      if "can_print w1 (''An error occurred while downloading YouTube audio: '' @ str_exn e)"
      using assms(2) t that by (simp add: download_youtube_audio_eq print_ok)
    from f n c same_tags Inl mapping show ?thesis
      by auto
  next
    case (Inr info)
    show ?thesis
    proof (cases "files w1 ?ap = None \<or> info ''title'' = None \<or> info ''uploader'' = None")
      case True
      with assms(1) Inr have "files w' = files w1"
        by (auto simp add: fw download_files split: option.splits)
      with same_tags Inr mapping show ?thesis
        by auto
    next
      case False
      then obtain title author where i: "info ''title'' = Some title" "info ''uploader'' = Some author"
        and ex: "files w1 ?ap \<noteq> None"
        by auto
      from assms(1) Inr i ex
      have w': "files w' = files (snd (add_metadata_to_mp3 ?ap
                        [''title'' \<mapsto> title, ''author'' \<mapsto> author,
                         ''description'' \<mapsto> dict_get info ''description'' ''''] url w1))"
        by (auto simp add: fw download_files)
      have "dom (files w') = dom (files w1)"
        by (simp add: w' add_metadata_files_dom)
      moreover have "\<forall>p. p \<noteq> ?ap \<longrightarrow> files w' p = files w1 p"
        by (simp add: w' add_metadata_files_other)
      moreover have "\<forall>f. files w1 ?ap = Some f \<longrightarrow>
          (\<exists>t. files w' ?ap = Some (f\<lparr>id3_tags := t\<rparr>))"
        by (simp add: w' add_metadata_files_same)
      ultimately show ?thesis
        using Inr mapping by auto
    qed
  qed
qed

theorem fetcher_file_effects_witness:
  "fst (download_youtube_audio ydl_unreachable ''r1'' ''https://nowhere.invalid/v'' ''out'' world0)
     = Inr None
   \<and> files (snd (download_youtube_audio ydl_unreachable ''r1'' ''https://nowhere.invalid/v'' ''out''
        world0)) = files world0"
proof -
  have a: "ydl_unreachable (make_ydl_opts ''r1'' ''out'') ''https://nowhere.invalid/v'' world0
           = (Inl (DownloadError ''Unable to download webpage''), world0)"
    by (simp add: ydl_unreachable_def raise_py_def)
  have b: "download_youtube_audio ydl_unreachable ''r1'' ''https://nowhere.invalid/v'' ''out'' world0
           = (fst (download_youtube_audio ydl_unreachable ''r1'' ''https://nowhere.invalid/v'' ''out''
                world0),
              snd (download_youtube_audio ydl_unreachable ''r1'' ''https://nowhere.invalid/v'' ''out''
                world0))"
    by simp
  have c: "can_print world0 (''An error occurred while downloading YouTube audio: '' @
             str_exn (DownloadError ''Unable to download webpage''))"
    by (simp add: can_print_def world0_def)
  note th = fetcher_file_effects [where ydl = ydl_unreachable and random_filename = "''r1''"
        and output_path = "''out''" and url = "''https://nowhere.invalid/v''" and w = world0,
        OF a b, THEN conjunct2, THEN conjunct2, THEN conjunct2, THEN conjunct2, rule_format,
        OF refl]
  from th c show ?thesis
    by blast
qed

end
